theory Spec2Isabelle
  imports Complex_Main
begin

section \<open>Python values of the CLIP ingestion service\<close>

text \<open>
  The development embeds \<^verbatim>\<open>src/clip-service\<close>: the message converter
  (\<^verbatim>\<open>message_converter.py\<close>), the object-store download
  (\<^verbatim>\<open>minio_handler.py\<close>), the fusion of embeddings
  (\<^verbatim>\<open>clip_handler_enhanced.py\<close>) and the two queue workers
  (\<^verbatim>\<open>main.py\<close>, \<^verbatim>\<open>main_enhanced.py\<close>).

  A Python \<^verbatim>\<open>str\<close> is a sequence of Unicode code points, so it is a list of
  naturals here; \<open>py\<close> turns an ASCII literal into that form. Logging and the
  diagnostic counters of the converter and the worker are left out: no result of a function
  depends on them. Floating-point numbers are idealised as reals; a division of zero by zero,
  which numpy answers with \<^verbatim>\<open>nan\<close>, is kept apart as \<open>NaNs\<close>.
\<close>

type_synonym pystr = "nat list"

definition py :: "string \<Rightarrow> pystr" where
  "py s = map of_char s"

text \<open>
  The values a decoded JSON payload holds. \<open>POther t r\<close> stands for any value the
  code never takes apart (a float, a list, a nested object): the code observes only its truth
  value \<open>t\<close> and the text \<open>r\<close> that \<^verbatim>\<open>str()\<close> gives.
\<close>

datatype pyval = PNone | PBool bool | PInt int | PStr pystr | POther bool pystr

datatype py_exn =
  JSONDecodeError | UnicodeDecodeError | UnicodeEncodeError | AttributeError | TypeError
  | ValueError | RuntimeError | S3Error | AMQPError | OtherError

type_synonym pydict = "string \<rightharpoonup> pyval"

fun truthy :: "pyval \<Rightarrow> bool" where
  "truthy PNone = False"
| "truthy (PBool b) = b"
| "truthy (PInt i) = (i \<noteq> 0)"
| "truthy (PStr s) = (s \<noteq> [])"
| "truthy (POther t r) = t"

fun digits :: "nat \<Rightarrow> pystr" where
  "digits n = (if n < 10 then [48 + n] else digits (n div 10) @ [48 + n mod 10])"

declare digits.simps [simp del]

definition str_int :: "int \<Rightarrow> pystr" where
  "str_int i = (if i < 0 then 45 # digits (nat (- i)) else digits (nat i))"

fun py_str :: "pyval \<Rightarrow> pystr" where
  "py_str PNone = py ''None''"
| "py_str (PBool b) = (if b then py ''True'' else py ''False'')"
| "py_str (PInt i) = str_int i"
| "py_str (PStr s) = s"
| "py_str (POther t r) = r"

definition is_str :: "pyval \<Rightarrow> bool" where
  "is_str v = (case v of PStr s \<Rightarrow> True | _ \<Rightarrow> False)"

definition dget :: "pydict \<Rightarrow> string \<Rightarrow> pyval \<Rightarrow> pyval" where
  "dget d k dflt = (case d k of None \<Rightarrow> dflt | Some v \<Rightarrow> v)"

definition setdefault :: "pydict \<Rightarrow> string \<Rightarrow> pyval \<Rightarrow> pydict" where
  "setdefault d k dflt = (case d k of None \<Rightarrow> d(k \<mapsto> dflt) | Some v \<Rightarrow> d)"

section \<open>String operations\<close>

text \<open>
  \<^verbatim>\<open>str.strip()\<close> and the class \<^verbatim>\<open>\s\<close> of \<^verbatim>\<open>re\<close> on a
  \<^verbatim>\<open>str\<close> pattern use the same set of white-space code points.
\<close>

definition isspace :: "nat \<Rightarrow> bool" where
  "isspace c \<longleftrightarrow>
     (9 \<le> c \<and> c \<le> 13) \<or> (28 \<le> c \<and> c \<le> 32) \<or> c = 133 \<or> c = 160 \<or> c = 5760 \<or>
     (8192 \<le> c \<and> c \<le> 8202) \<or> c = 8232 \<or> c = 8233 \<or> c = 8239 \<or> c = 8287 \<or>
     c = 12288"

definition strip_with :: "(nat \<Rightarrow> bool) \<Rightarrow> pystr \<Rightarrow> pystr" where
  "strip_with p s = rev (dropWhile p (rev (dropWhile p s)))"

definition strip :: "pystr \<Rightarrow> pystr" where
  "strip s = strip_with isspace s"

definition strip_chars :: "pystr \<Rightarrow> pystr \<Rightarrow> pystr" where
  "strip_chars cs s = strip_with (\<lambda>c. c \<in> set cs) s"

definition replace_char :: "nat \<Rightarrow> nat \<Rightarrow> pystr \<Rightarrow> pystr" where
  "replace_char old new s = map (\<lambda>c. if c = old then new else c) s"

text \<open>
  \<^verbatim>\<open>re.sub(r'C+', r, s)\<close> for a character class \<open>C\<close>: every maximal run of
  characters of the class is replaced by \<open>r\<close>.
\<close>

function re_sub_runs :: "(nat \<Rightarrow> bool) \<Rightarrow> pystr \<Rightarrow> pystr \<Rightarrow> pystr" where
  "re_sub_runs p r [] = []"
| "re_sub_runs p r (c # cs) =
     (if p c then r @ re_sub_runs p r (dropWhile p cs) else c # re_sub_runs p r cs)"
  by pat_completeness auto
termination
  by (relation "measure (\<lambda>(p, r, s). length s)")
    (auto simp: le_imp_less_Suc length_dropWhile_le)

fun contains :: "pystr \<Rightarrow> pystr \<Rightarrow> bool" where
  "contains sub [] = (sub = [])"
| "contains sub (c # cs) = (take (length sub) (c # cs) = sub \<or> contains sub cs)"

text \<open>\<^verbatim>\<open>s.split(sep, 1)\<close> and \<^verbatim>\<open>s.split(sep)[-1]\<close> for a one-character separator.\<close>

definition split_once :: "nat \<Rightarrow> pystr \<Rightarrow> pystr list" where
  "split_once sep s =
     (if sep \<in> set s
      then [takeWhile (\<lambda>c. c \<noteq> sep) s, tl (dropWhile (\<lambda>c. c \<noteq> sep) s)]
      else [s])"

definition last_segment :: "nat \<Rightarrow> pystr \<Rightarrow> pystr" where
  "last_segment sep s = rev (takeWhile (\<lambda>c. c \<noteq> sep) (rev s))"

fun join :: "pystr \<Rightarrow> pystr list \<Rightarrow> pystr" where
  "join sep [] = []"
| "join sep [x] = x"
| "join sep (x # y # ys) = x @ sep @ join sep (y # ys)"

text \<open>
  \<^verbatim>\<open>len(s.encode('utf-8'))\<close>: a lone surrogate (which a JSON escape can produce)
  cannot be encoded and raises.
\<close>

definition is_surrogate :: "nat \<Rightarrow> bool" where
  "is_surrogate c \<longleftrightarrow> 55296 \<le> c \<and> c \<le> 57343"

definition utf8_width :: "nat \<Rightarrow> nat" where
  "utf8_width c = (if c < 128 then 1 else if c < 2048 then 2 else if c < 65536 then 3 else 4)"

definition utf8_length :: "pystr \<Rightarrow> py_exn + nat" where
  "utf8_length s =
     (if list_ex is_surrogate s then Inl UnicodeEncodeError
      else Inr (sum_list (map utf8_width s)))"

section \<open>The message converter\<close>

text \<open>
  \<^verbatim>\<open>urllib.parse.urlparse\<close> and \<^verbatim>\<open>str.lower\<close> are library functions; the
  converter takes them as parameters. Reading \<^verbatim>\<open>port\<close> of a parse result can
  raise \<^verbatim>\<open>ValueError\<close>.
\<close>

record parsed_url =
  netloc :: pystr
  path :: pystr
  port :: "py_exn + nat option"

record library =
  urlparse :: "pystr \<Rightarrow> py_exn + parsed_url"
  str_lower :: "pystr \<Rightarrow> pystr"

definition normalize_object_key :: "pystr \<Rightarrow> pystr" where
  "normalize_object_key key =
     (let key1 = strip_chars (py ''/'') (strip key);
          key2 = replace_char 92 47 key1;
          key3 = re_sub_runs (\<lambda>c. c = 47) (py ''/'') key2
      in key3)"

definition normalize_text :: "pyval \<Rightarrow> pystr" where
  "normalize_text text =
     (if text = PNone then []
      else re_sub_runs isspace (py '' '') (strip (py_str text)))"

definition url_to_object_key :: "library \<Rightarrow> pystr \<Rightarrow> pystr option" where
  "url_to_object_key lib url =
     (case urlparse lib url of
        Inl e \<Rightarrow> None
      | Inr parsed \<Rightarrow>
          (case (if contains (py ''minio'') (str_lower lib (netloc parsed)) then Inr True
                 else (case port parsed of
                         Inl e \<Rightarrow> Inl e
                       | Inr p \<Rightarrow> Inr (p = Some 9000))) of
             Inl e \<Rightarrow> None
           | Inr is_minio \<Rightarrow>
               (let path_parts = split_once 47 (strip_chars (py ''/'') (path parsed)) in
                if is_minio \<and> length path_parts > 1 then Some (path_parts ! 1)
                else if path parsed \<noteq> [] then
                  (let filename = last_segment 47 (path parsed) in
                   if filename \<noteq> [] \<and> 46 \<in> set filename
                   then Some (py ''items/'' @ filename)
                   else None)
                else None)))"

definition extract_image_key :: "library \<Rightarrow> pydict \<Rightarrow> pystr" where
  "extract_image_key lib message =
     (let by_key =
            (case message ''image_key'' of
               None \<Rightarrow> None
             | Some v \<Rightarrow>
                 if truthy v \<and> strip (py_str v) \<noteq> []
                 then Some (normalize_object_key (strip (py_str v)))
                 else None)
      in case by_key of
           Some k \<Rightarrow> k
         | None \<Rightarrow>
             (case message ''image_url'' of
                None \<Rightarrow> []
              | Some u \<Rightarrow>
                  if truthy u \<and> strip (py_str u) \<noteq> []
                  then (case url_to_object_key lib (strip (py_str u)) of
                          None \<Rightarrow> []
                        | Some object_key \<Rightarrow> if object_key \<noteq> [] then object_key else [])
                  else []))"

text \<open>
  No statement inside the \<^verbatim>\<open>try\<close> of \<^verbatim>\<open>normalize_message\<close> can raise on a
  dictionary of JSON values (\<^verbatim>\<open>_url_to_object_key\<close> catches its own errors), so the
  \<^verbatim>\<open>except\<close> branch, which returns the input unchanged, has no counterpart here.
\<close>

definition normalize_message :: "library \<Rightarrow> pydict \<Rightarrow> pydict" where
  "normalize_message lib message =
     (let image_key = extract_image_key lib message;
          n1 = message(''image_key'' \<mapsto> PStr image_key);
          n2 = n1(''image_url'' := None);
          n3 = n2(''text'' \<mapsto> PStr (normalize_text (dget message ''text'' (PStr []))));
          n4 = n3(''description'' \<mapsto>
                 PStr (normalize_text (dget message ''description'' (PStr []))));
          n5 = n4(''category'' \<mapsto> PStr (normalize_text (dget message ''category'' (PStr []))));
          n6 = n5(''location'' \<mapsto> PStr (normalize_text (dget message ''location'' (PStr []))));
          n7 = setdefault n6 ''item_id'' (PStr []);
          n8 = setdefault n7 ''date_lost'' (PStr [])
      in if \<not> truthy (dget n8 ''contact_info'' PNone) then
           (let email = dget n8 ''contact_email'' (PStr []);
                phone = dget n8 ''contact_phone'' (PStr []);
                parts = (if truthy email then [py_str email] else []) @
                        (if truthy phone then [py_str phone] else [])
            in n8(''contact_info'' \<mapsto> PStr (join (py '', '') parts)))
         else setdefault n8 ''contact_info'' (PStr []))"

definition invalid_chars :: "nat list" where
  "invalid_chars = [92, 0, 10, 13, 9]"

definition is_valid_object_key :: "pyval \<Rightarrow> py_exn + bool" where
  "is_valid_object_key key =
     (case key of
        PStr s \<Rightarrow>
          if s = [] then Inr False
          else if list_ex (\<lambda>ch. ch \<in> set s) invalid_chars then Inr False
          else (case utf8_length s of
                  Inl e \<Rightarrow> Inl e
                | Inr n \<Rightarrow> if n > 1024 then Inr False else Inr True)
      | _ \<Rightarrow> Inr False)"

definition validate_message :: "pydict \<Rightarrow> py_exn + bool \<times> pystr option" where
  "validate_message message =
     (if \<not> truthy (dget message ''item_id'' PNone) then
        Inr (False, Some (py ''Missing required field: item_id''))
      else if \<not> (truthy (dget message ''text'' PNone) \<or>
                  truthy (dget message ''description'' PNone) \<or>
                  truthy (dget message ''category'' PNone)) then
        Inr (False, Some (py
          ''Message must contain at least one text field (text, description, or category)''))
      else
        (let image_key = dget message ''image_key'' (PStr []) in
         if truthy image_key then
           (case is_valid_object_key image_key of
              Inl e \<Rightarrow> Inl e
            | Inr ok \<Rightarrow>
                if \<not> ok then Inr (False, Some (py ''Invalid image_key format: '' @ py_str image_key))
                else Inr (True, None))
         else Inr (True, None)))"

text \<open>
  The record the worker publishes. Its embedding is a list of reals, or an array of
  \<^verbatim>\<open>nan\<close> of a given length.
\<close>

datatype ndarray = Arr "real list" | NaNs nat

record output_message =
  out_item_id :: pyval
  out_embedding :: ndarray
  out_title :: pyval
  out_description :: pyval
  out_category :: pyval
  out_location :: pyval
  out_date_lost :: pyval
  out_image_key :: pyval
  out_contact_info :: pyval
  out_timestamp :: pystr
  out_has_image_embedding :: bool

definition create_output_message ::
  "pydict \<Rightarrow> ndarray \<Rightarrow> bool \<Rightarrow> pystr \<Rightarrow> output_message" where
  "create_output_message input_message emb has_image ts =
     \<lparr>out_item_id = dget input_message ''item_id'' (PStr []),
      out_embedding = emb,
      out_title = dget input_message ''text'' (PStr []),
      out_description = dget input_message ''description'' (PStr []),
      out_category = dget input_message ''category'' (PStr []),
      out_location = dget input_message ''location'' (PStr []),
      out_date_lost = dget input_message ''date_lost'' (PStr []),
      out_image_key = dget input_message ''image_key'' (PStr []),
      out_contact_info = dget input_message ''contact_info'' (PStr []),
      out_timestamp = ts,
      out_has_image_embedding = has_image\<rparr>"

section \<open>Embedding vectors\<close>

text \<open>
  numpy's element-wise operations on one-dimensional arrays: equal lengths combine pointwise,
  an array of length one is broadcast, any other pair of lengths raises
  \<^verbatim>\<open>ValueError\<close>.
\<close>

definition np_binop ::
  "(real \<Rightarrow> real \<Rightarrow> real) \<Rightarrow> real list \<Rightarrow> real list \<Rightarrow> py_exn + real list" where
  "np_binop f xs ys =
     (if length xs = length ys then Inr (map2 f xs ys)
      else if length xs = 1 then Inr (map (f (hd xs)) ys)
      else if length ys = 1 then Inr (map (\<lambda>x. f x (hd ys)) xs)
      else Inl ValueError)"

definition np_add :: "real list \<Rightarrow> real list \<Rightarrow> py_exn + real list" where
  "np_add xs ys = np_binop (+) xs ys"

definition np_scale :: "real \<Rightarrow> real list \<Rightarrow> real list" where
  "np_scale c xs = map (\<lambda>x. c * x) xs"

definition l2norm :: "real list \<Rightarrow> real" where
  "l2norm v = sqrt (sum_list (map (\<lambda>x. x * x) v))"

text \<open>
  \<^verbatim>\<open>combined / np.linalg.norm(combined)\<close>: when the norm is zero every entry is
  zero, and numpy divides zero by zero to \<^verbatim>\<open>nan\<close> without raising.
\<close>

definition np_unit :: "real list \<Rightarrow> ndarray" where
  "np_unit v =
     (let n = l2norm v in
      if n = 0 \<and> v \<noteq> [] then NaNs (length v) else Arr (map (\<lambda>x. x / n) v))"

fun nd_len :: "ndarray \<Rightarrow> nat" where
  "nd_len (Arr v) = length v"
| "nd_len (NaNs n) = n"

definition combine_embeddings :: "real list \<Rightarrow> real list \<Rightarrow> real \<Rightarrow> py_exn + ndarray" where
  "combine_embeddings text_embedding image_embedding text_weight =
     (if \<not> (0 \<le> text_weight \<and> text_weight \<le> 1) then Inl ValueError
      else
        (let image_weight = 1 - text_weight in
         case np_add (np_scale text_weight text_embedding)
                     (np_scale image_weight image_embedding) of
           Inl e \<Rightarrow> Inl e
         | Inr combined \<Rightarrow> Inr (np_unit combined)))"

section \<open>The text preprocessor of the enhanced handler\<close>

definition preprocessor_normalize_text :: "library \<Rightarrow> pystr \<Rightarrow> pystr" where
  "preprocessor_normalize_text lib text =
     strip (re_sub_runs isspace (py '' '') (str_lower lib text))"

text \<open>
  \<^verbatim>\<open>" ".join(parts)\<close> raises \<^verbatim>\<open>TypeError\<close> when the description, which is
  appended as it is, is not a \<^verbatim>\<open>str\<close>.
\<close>

definition create_enhanced_text ::
  "library \<Rightarrow> pyval \<Rightarrow> pyval \<Rightarrow> pyval \<Rightarrow> pyval \<Rightarrow> py_exn + pystr" where
  "create_enhanced_text lib ttl descr cat loc =
     (let parts =
            (if truthy ttl then [PStr (py_str ttl @ py '' '' @ py_str ttl)] else []) @
            (if truthy descr then [descr] else []) @
            (if truthy cat then [PStr (py ''kategoria: '' @ py_str cat)] else []) @
            (if truthy loc then [PStr (py ''miejsce: '' @ py_str loc)] else [])
      in if list_all is_str parts
         then Inr (preprocessor_normalize_text lib (join (py '' '') (map py_str parts)))
         else Inl TypeError)"

section \<open>The object store\<close>

text \<open>
  \<^verbatim>\<open>MinIOHandler.download_image\<close>. The calls to the MinIO client and to PIL are the
  fields of \<open>object_store\<close>; \<open>local_path\<close> is the temporary file name built from
  the object name and the item id.
\<close>

record object_store =
  stat_object :: "pyval \<Rightarrow> py_exn + nat"
  fget_object :: "pyval \<Rightarrow> py_exn + unit"
  image_verify :: "pyval \<Rightarrow> py_exn + unit"
  local_path :: "pyval \<Rightarrow> pyval \<Rightarrow> pystr"

definition download_image :: "object_store \<Rightarrow> pyval \<Rightarrow> pyval \<Rightarrow> nat \<Rightarrow> pystr option" where
  "download_image st object_name item_id max_size_mb =
     (case stat_object st object_name of
        Inl e \<Rightarrow> None
      | Inr sz \<Rightarrow>
          if real sz / (1024 * 1024) > real max_size_mb then None
          else
            (let file_path = local_path st object_name item_id in
             case fget_object st object_name of
               Inl e \<Rightarrow> None
             | Inr u \<Rightarrow>
                 (case image_verify st object_name of
                    Inl e \<Rightarrow> None
                  | Inr u' \<Rightarrow> Some file_path)))"

section \<open>The workers\<close>

text \<open>
  What a worker meets outside itself: the library functions, the object store, the CLIP
  encoder (which returns unit vectors or raises), the broker's publish and the clock.
  \<open>json_loads\<close> is \<^verbatim>\<open>json.loads(body.decode('utf-8'))\<close>.
  \<^verbatim>\<open>basic_ack\<close> and \<^verbatim>\<open>basic_nack\<close> are taken not to raise.
\<close>

datatype payload = Dict pydict | NotDict

datatype channel_op = Publish output_message | BasicAck | BasicNack bool

record world =
  lib :: library
  json_loads :: "nat list \<Rightarrow> py_exn + payload"
  minio :: object_store
  encode_text :: "pystr \<Rightarrow> py_exn + real list"
  encode_image :: "pystr \<Rightarrow> py_exn + real list"
  basic_publish :: "output_message \<Rightarrow> py_exn + unit"
  utcnow :: pystr

record outcome =
  ops :: "channel_op list"
  raised :: "py_exn option"

definition combined_text :: "pydict \<Rightarrow> pystr" where
  "combined_text message =
     py_str (dget message ''text'' (PStr [])) @ py ''. '' @
     py_str (dget message ''description'' (PStr [])) @ py ''. Category: '' @
     py_str (dget message ''category'' (PStr []))"

text \<open>
  The image step, the same in both workers: every exception inside it is caught and logged.
  In the enhanced worker the similarity is computed after \<^verbatim>\<open>image_embedding\<close> is
  assigned, so a failure there leaves the embedding in place.
\<close>

definition image_embedding :: "world \<Rightarrow> pydict \<Rightarrow> real list option" where
  "image_embedding w message =
     (let item_id = dget message ''item_id'' PNone;
          image_key = dget message ''image_key'' (PStr [])
      in if truthy image_key then
           (case download_image (minio w) image_key item_id 10 of
              None \<Rightarrow> None
            | Some image_path \<Rightarrow>
                (case encode_image w image_path of
                   Inl e \<Rightarrow> None
                 | Inr v \<Rightarrow> Some v))
         else None)"

definition final_embedding :: "real list \<Rightarrow> real list option \<Rightarrow> py_exn + real list" where
  "final_embedding text_embedding img =
     (case img of
        Some image_emb \<Rightarrow>
          (case np_add text_embedding image_emb of
             Inl e \<Rightarrow> Inl e
           | Inr s \<Rightarrow> Inr (map (\<lambda>x. x / 2) s))
      | None \<Rightarrow> Inr text_embedding)"

text \<open>
  \<^verbatim>\<open>main.py\<close>, lines 125 to 174: the embeddings and the record to publish. An
  exception of the text encoder or of the addition leaves the step.
\<close>

definition build_record :: "world \<Rightarrow> pydict \<Rightarrow> py_exn + output_message" where
  "build_record w message =
     (case encode_text w (combined_text message) of
        Inl e \<Rightarrow> Inl e
      | Inr text_embedding \<Rightarrow>
          (let img = image_embedding w message in
           case final_embedding text_embedding img of
             Inl e \<Rightarrow> Inl e
           | Inr fe \<Rightarrow> Inr (create_output_message message (Arr fe) (img \<noteq> None) (utcnow w))))"

text \<open>Lines 176 to 187: publish, then acknowledge.\<close>

definition publish_and_ack ::
  "world \<Rightarrow> output_message \<Rightarrow> channel_op list \<times> (py_exn + unit)" where
  "publish_and_ack w vectorized_message =
     (case basic_publish w vectorized_message of
        Inl e \<Rightarrow> ([], Inl e)
      | Inr u \<Rightarrow> ([Publish vectorized_message, BasicAck], Inr ()))"

definition process_body :: "world \<Rightarrow> nat list \<Rightarrow> channel_op list \<times> (py_exn + unit)" where
  "process_body w body =
     (case json_loads w body of
        Inl e \<Rightarrow> ([], Inl e)
      | Inr NotDict \<Rightarrow> ([], Inl AttributeError)
      | Inr (Dict raw_message) \<Rightarrow>
          (let message = normalize_message (lib w) raw_message in
           case validate_message message of
             Inl e \<Rightarrow> ([], Inl e)
           | Inr (is_valid, error_msg) \<Rightarrow>
               if \<not> is_valid then ([BasicAck], Inr ())
               else
                 (case build_record w message of
                    Inl e \<Rightarrow> ([], Inl e)
                  | Inr vectorized_message \<Rightarrow> publish_and_ack w vectorized_message)))"

text \<open>The handlers of \<^verbatim>\<open>process_message\<close>, the same in both workers.\<close>

definition handle :: "channel_op list \<times> (py_exn + unit) \<Rightarrow> outcome" where
  "handle r =
     (case r of
        (sent, Inr u) \<Rightarrow> \<lparr>ops = sent, raised = None\<rparr>
      | (sent, Inl e) \<Rightarrow>
          if e = JSONDecodeError then \<lparr>ops = sent @ [BasicNack False], raised = None\<rparr>
          else \<lparr>ops = sent @ [BasicNack True], raised = None\<rparr>)"

definition process_message :: "world \<Rightarrow> nat list \<Rightarrow> outcome" where
  "process_message w body = handle (process_body w body)"

definition fuse_enhanced :: "real list \<Rightarrow> real list option \<Rightarrow> py_exn + ndarray" where
  "fuse_enhanced text_embedding img =
     (case img of
        Some image_emb \<Rightarrow> combine_embeddings text_embedding image_emb (6 / 10)
      | None \<Rightarrow> Inr (Arr text_embedding))"

text \<open>
  \<^verbatim>\<open>main_enhanced.py\<close>, lines 143 to 215. The dimension check raises
  \<^verbatim>\<open>ValueError\<close> inside the \<^verbatim>\<open>try\<close>.
\<close>

definition build_record_enhanced :: "world \<Rightarrow> pydict \<Rightarrow> py_exn + output_message" where
  "build_record_enhanced w message =
     (case create_enhanced_text (lib w)
             (dget message ''title'' (PStr [])) (dget message ''description'' (PStr []))
             (dget message ''category'' (PStr [])) (dget message ''location'' (PStr [])) of
        Inl e \<Rightarrow> Inl e
      | Inr enhanced_text \<Rightarrow>
          (case encode_text w enhanced_text of
             Inl e \<Rightarrow> Inl e
           | Inr text_embedding \<Rightarrow>
               (let img = image_embedding w message in
                case fuse_enhanced text_embedding img of
                  Inl e \<Rightarrow> Inl e
                | Inr fe \<Rightarrow>
                    if nd_len fe \<noteq> 512 then Inl ValueError
                    else Inr (create_output_message message fe (img \<noteq> None)
                                (utcnow w @ py ''Z'')))))"

text \<open>
  Lines 143 to 230: what \<^verbatim>\<open>process_message\<close> of \<^verbatim>\<open>main_enhanced.py\<close> does
  with a normalised message.
\<close>

definition embed_and_publish_enhanced ::
  "world \<Rightarrow> pydict \<Rightarrow> channel_op list \<times> (py_exn + unit)" where
  "embed_and_publish_enhanced w message =
     (case build_record_enhanced w message of
        Inl e \<Rightarrow> ([], Inl e)
      | Inr vectorized_message \<Rightarrow> publish_and_ack w vectorized_message)"

text \<open>
  Line 136 calls \<^verbatim>\<open>self.message_converter.convert_to_normalized\<close>. The class
  \<^verbatim>\<open>MessageConverter\<close> defines no such method, so the attribute lookup raises
  \<^verbatim>\<open>AttributeError\<close> for every payload that is a dictionary, and the lines after it
  are not reached from here.
\<close>

definition process_body_enhanced ::
  "world \<Rightarrow> nat list \<Rightarrow> channel_op list \<times> (py_exn + unit)" where
  "process_body_enhanced w body =
     (case json_loads w body of
        Inl e \<Rightarrow> ([], Inl e)
      | Inr NotDict \<Rightarrow> ([], Inl AttributeError)
      | Inr (Dict raw_message) \<Rightarrow> ([], Inl AttributeError))"

definition process_message_enhanced :: "world \<Rightarrow> nat list \<Rightarrow> outcome" where
  "process_message_enhanced w body = handle (process_body_enhanced w body)"

section \<open>Properties as the specification words them\<close>

text \<open>
  The failures of an image fetch the specification lists: the object is not found or its
  size cannot be read, it is larger than ten megabytes, the download fails, or the file does
  not open as an image.
\<close>

definition image_fetch_fails :: "object_store \<Rightarrow> pyval \<Rightarrow> bool" where
  "image_fetch_fails st key \<longleftrightarrow>
     (case stat_object st key of Inl e \<Rightarrow> True | Inr sz \<Rightarrow> 10 * 1024 * 1024 < sz) \<or>
     isl (fget_object st key) \<or>
     isl (image_verify st key)"

text \<open>
  The conditions under which validation fails, for an item whose \<^verbatim>\<open>image_key\<close> is the
  string \<open>key\<close>.
\<close>

definition validation_failure :: "pydict \<Rightarrow> pystr \<Rightarrow> bool" where
  "validation_failure m key \<longleftrightarrow>
     \<not> truthy (dget m ''item_id'' PNone) \<or>
     (\<not> truthy (dget m ''text'' PNone) \<and> \<not> truthy (dget m ''description'' PNone) \<and>
      \<not> truthy (dget m ''category'' PNone)) \<or>
     (key \<noteq> [] \<and>
      (list_ex (\<lambda>ch. ch \<in> set key) [92, 0, 10, 13, 9] \<or> sum_list (map utf8_width key) > 1024))"

text \<open>
  A text in normal form: no white space at either end, and every white-space character is a
  single space between two other characters.
\<close>

fun single_spaced :: "pystr \<Rightarrow> bool" where
  "single_spaced [] = True"
| "single_spaced [c] = (isspace c \<longrightarrow> c = 32)"
| "single_spaced (c # d # cs) = ((isspace c \<longrightarrow> c = 32 \<and> \<not> isspace d) \<and> single_spaced (d # cs))"

definition ws_normal :: "pystr \<Rightarrow> bool" where
  "ws_normal s \<longleftrightarrow> (s = [] \<or> (\<not> isspace (hd s) \<and> \<not> isspace (last s))) \<and> single_spaced s"

section \<open>Example worlds and messages\<close>

definition no_urls :: library where
  "no_urls = \<lparr>urlparse = (\<lambda>u. Inl ValueError), str_lower = (\<lambda>s. s)\<rparr>"

definition web_lib :: library where
  "web_lib =
     \<lparr>urlparse = (\<lambda>u. Inr \<lparr>netloc = py ''example.com'', path = py ''/images/wallet.jpg'',
                              port = Inr None\<rparr>),
      str_lower = (\<lambda>s. s)\<rparr>"

definition empty_store :: object_store where
  "empty_store =
     \<lparr>stat_object = (\<lambda>k. Inl S3Error), fget_object = (\<lambda>k. Inl S3Error),
      image_verify = (\<lambda>k. Inl OtherError), local_path = (\<lambda>k i. py ''/tmp/clip-images/f.jpg'')\<rparr>"

definition full_store :: object_store where
  "full_store =
     \<lparr>stat_object = (\<lambda>k. Inr 1000), fget_object = (\<lambda>k. Inr ()),
      image_verify = (\<lambda>k. Inr ()), local_path = (\<lambda>k i. py ''/tmp/clip-images/f.jpg'')\<rparr>"

definition example_world ::
  "pydict \<Rightarrow> object_store \<Rightarrow> real list \<Rightarrow> real list \<Rightarrow> (py_exn + unit) \<Rightarrow> world" where
  "example_world raw st t i pub =
     \<lparr>lib = no_urls, json_loads = (\<lambda>b. Inr (Dict raw)), minio = st,
      encode_text = (\<lambda>s. Inr t), encode_image = (\<lambda>p. Inr i),
      basic_publish = (\<lambda>m. pub), utcnow = py ''2024-12-06T12:00:00''\<rparr>"

definition wallet :: pydict where
  "wallet = [''item_id'' \<mapsto> PStr (py ''x1''), ''text'' \<mapsto> PStr (py ''lost wallet'')]"

definition wallet_photo :: pydict where
  "wallet_photo = wallet(''image_key'' \<mapsto> PStr (py ''items/a.jpg''))"

definition no_id :: pydict where
  "no_id = [''text'' \<mapsto> PStr (py ''lost wallet'')]"

definition no_text :: pydict where
  "no_text = [''item_id'' \<mapsto> PStr (py ''x1'')]"

definition wallet_titled :: pydict where
  "wallet_titled = [''item_id'' \<mapsto> PStr (py ''x1''), ''title'' \<mapsto> PStr (py ''lost wallet'')]"

definition legacy_wallet :: pydict where
  "legacy_wallet = wallet(''image_url'' \<mapsto> PStr (py ''https://example.com/images/wallet.jpg''))"

definition backslash_key :: pydict where
  "backslash_key = wallet(''image_key'' \<mapsto> PStr [97, 92, 98])"

definition padded :: pydict where
  "padded = wallet(''date_lost'' \<mapsto> PStr (py ''  2024-12-06  ''),
                   ''contact_info'' \<mapsto> PStr (py '' a  b ''),
                   ''description'' \<mapsto> PStr (py ''Contains   laptop ''))"

section \<open>Auxiliary facts\<close>

lemmas eval_defs =
  process_message_def process_body_def example_world_def handle_def validate_message_def
  normalize_message_def Let_def setdefault_def dget_def normalize_text_def strip_def
  strip_with_def isspace_def py_def extract_image_key_def build_record_def publish_and_ack_def
  image_embedding_def final_embedding_def create_output_message_def combined_text_def
  wallet_def wallet_photo_def no_id_def no_text_def no_urls_def empty_store_def full_store_def
  download_image_def is_valid_object_key_def invalid_chars_def utf8_length_def utf8_width_def
  is_surrogate_def normalize_object_key_def strip_chars_def replace_char_def np_add_def np_binop_def

lemmas enh_defs = embed_and_publish_enhanced_def build_record_enhanced_def
  create_enhanced_text_def preprocessor_normalize_text_def fuse_enhanced_def wallet_titled_def
  is_str_def publish_and_ack_def handle_def

lemma download_fails:
  "image_fetch_fails st key \<Longrightarrow> download_image st key item_id 10 = None"
  by (auto simp: image_fetch_fails_def download_image_def isl_def split: sum.splits)

lemma handle_raised: "raised (handle r) = None"
  by (cases r) (auto simp: handle_def split: sum.splits)

lemma dget_upd: "dget (d(k \<mapsto> v)) k' dflt = (if k' = k then v else dget d k' dflt)"
  by (simp add: dget_def)

lemma dget_del: "dget (d(k := None)) k' dflt = (if k' = k then dflt else dget d k' dflt)"
  by (simp add: dget_def)

lemma setdefault_apply:
  "setdefault d k v k' = (if k' = k then Some (dget d k v) else d k')"
  by (simp add: setdefault_def dget_def split: option.split)

lemma dget_setdefault:
  "dget (setdefault d k v) k' dflt = (if k' = k then dget d k v else dget d k' dflt)"
  by (simp add: dget_def [of "setdefault d k v"] setdefault_apply) (simp add: dget_def)

lemma re_sub_runs_hd:
  "s \<noteq> [] \<Longrightarrow> \<not> p (hd s) \<Longrightarrow> re_sub_runs p r s = hd s # re_sub_runs p r (tl s)"
  by (cases s) simp_all

lemma dropWhile_last:
  "s \<noteq> [] \<Longrightarrow> \<not> p (last s) \<Longrightarrow> dropWhile p s \<noteq> [] \<and> last (dropWhile p s) = last s"
proof -
  assume a: "s \<noteq> []" "\<not> p (last s)"
  then have n: "dropWhile p s \<noteq> []"
    using last_in_set [of s] by (auto simp: dropWhile_eq_Nil_conv)
  have "s = takeWhile p s @ dropWhile p s" by simp
  then have "last s = last (takeWhile p s @ dropWhile p s)" by simp
  also have "\<dots> = last (dropWhile p s)" using n by (rule last_appendR)
  finally show ?thesis using n by simp
qed

lemma re_sub_runs_last:
  "s \<noteq> [] \<Longrightarrow> \<not> p (last s) \<Longrightarrow>
   re_sub_runs p r s \<noteq> [] \<and> last (re_sub_runs p r s) = last s"
proof (induction p r s rule: re_sub_runs.induct)
  case (1 p r)
  then show ?case by simp
next
  case (2 p r c cs)
  show ?case
  proof (cases "p c")
    case True
    with 2(3,4) have cs: "cs \<noteq> []" "\<not> p (last cs)" by (auto split: if_splits)
    from cs dropWhile_last [of cs p]
    have d: "dropWhile p cs \<noteq> []" "last (dropWhile p cs) = last cs" by simp_all
    with 2(1) [OF True] cs have "re_sub_runs p r (dropWhile p cs) \<noteq> [] \<and>
      last (re_sub_runs p r (dropWhile p cs)) = last cs" by simp
    with True cs show ?thesis by simp
  next
    case False
    show ?thesis
    proof (cases "cs = []")
      case True
      with False show ?thesis by simp
    next
      case ne: False
      with 2(4) have "\<not> p (last cs)" by simp
      with 2(2) [OF False ne] ne False show ?thesis by simp
    qed
  qed
qed

lemma single_spaced_Cons:
  "\<not> isspace c \<Longrightarrow> single_spaced (c # s) = single_spaced s"
  by (cases s) simp_all

lemma re_sub_runs_single_spaced:
  "s = [] \<or> \<not> isspace (last s) \<Longrightarrow> single_spaced (re_sub_runs isspace [32] s)"
proof (induction "isspace" "[32 :: nat]" s rule: re_sub_runs.induct)
  case 1
  then show ?case by simp
next
  case (2 c cs)
  show ?case
  proof (cases "isspace c")
    case True
    with 2(3) have cs: "cs \<noteq> []" "\<not> isspace (last cs)" by (auto split: if_splits)
    let ?d = "dropWhile isspace cs"
    from cs dropWhile_last [of cs isspace] have d: "?d \<noteq> []" "last ?d = last cs" by simp_all
    from d(1) have h: "\<not> isspace (hd ?d)" by (rule hd_dropWhile)
    have ih: "single_spaced (re_sub_runs isspace [32] ?d)"
      using 2(1) [OF True] d cs by simp
    have e: "re_sub_runs isspace [32] ?d = hd ?d # re_sub_runs isspace [32] (tl ?d)"
      using d(1) h by (rule re_sub_runs_hd)
    have "re_sub_runs isspace [32] (c # cs) = 32 # hd ?d # re_sub_runs isspace [32] (tl ?d)"
      using True e by simp
    moreover have "single_spaced (32 # hd ?d # re_sub_runs isspace [32] (tl ?d))"
      using ih h unfolding e by simp
    ultimately show ?thesis by simp
  next
    case False
    from 2(3) have "cs = [] \<or> \<not> isspace (last cs)" by (auto split: if_splits)
    with 2(2) [OF False] have "single_spaced (re_sub_runs isspace [32] cs)" by simp
    with False show ?thesis by (simp add: single_spaced_Cons)
  qed
qed

lemma strip_with_ends:
  "strip_with p s = [] \<or> (\<not> p (hd (strip_with p s)) \<and> \<not> p (last (strip_with p s)))"
proof (cases "strip_with p s = []")
  case True
  then show ?thesis by simp
next
  case False
  let ?t = "dropWhile p s"
  let ?u = "dropWhile p (rev ?t)"
  from False have u: "?u \<noteq> []" by (simp add: strip_with_def)
  have t: "?t \<noteq> []"
  proof
    assume a: "?t = []"
    have "?u = []" unfolding a by simp
    with u show False by simp
  qed
  from u have hu: "\<not> p (hd ?u)" by (rule hd_dropWhile)
  from t have ht: "\<not> p (hd ?t)" by (rule hd_dropWhile)
  have "rev ?t = takeWhile p (rev ?t) @ ?u" by simp
  then have "last (rev ?t) = last (takeWhile p (rev ?t) @ ?u)" by simp
  also have "\<dots> = last ?u" using u by (rule last_appendR)
  finally have lu: "last ?u = hd ?t" using t by (simp add: last_rev)
  have "hd (strip_with p s) = last ?u" using u by (simp add: strip_with_def hd_rev)
  moreover have "last (strip_with p s) = hd ?u" using u by (simp add: strip_with_def last_rev)
  ultimately show ?thesis using hu ht lu by simp
qed

lemma normalize_text_ws_normal: "ws_normal (normalize_text v)"
proof (cases "v = PNone \<or> strip (py_str v) = []")
  case True
  then show ?thesis by (auto simp: normalize_text_def ws_normal_def)
next
  case False
  let ?s = "strip (py_str v)"
  from False have ne: "?s \<noteq> []" by simp
  with strip_with_ends [of isspace "py_str v"]
  have e: "\<not> isspace (hd ?s)" "\<not> isspace (last ?s)" by (simp_all add: strip_def)
  have r: "normalize_text v = re_sub_runs isspace [32] ?s"
    using False by (simp add: normalize_text_def py_def)
  have h: "re_sub_runs isspace [32] ?s = hd ?s # re_sub_runs isspace [32] (tl ?s)"
    using ne e(1) by (rule re_sub_runs_hd)
  have l: "re_sub_runs isspace [32] ?s \<noteq> [] \<and> last (re_sub_runs isspace [32] ?s) = last ?s"
    using ne e(2) by (rule re_sub_runs_last)
  have s: "single_spaced (re_sub_runs isspace [32] ?s)"
    using e(2) by (intro re_sub_runs_single_spaced) simp
  have "hd (re_sub_runs isspace [32] ?s) = hd ?s" by (subst h) simp
  with l s e show ?thesis unfolding r ws_normal_def by simp
qed

lemma normalize_text_absent:
  "m k = None \<or> m k = Some PNone \<Longrightarrow> normalize_text (dget m k (PStr [])) = []"
  by (auto simp: normalize_text_def dget_def strip_def strip_with_def)

lemma normalize_message_text:
  "normalize_message l m ''text'' = Some (PStr (normalize_text (dget m ''text'' (PStr []))))"
  by (simp add: normalize_message_def Let_def setdefault_apply)

lemma normalize_message_description:
  "normalize_message l m ''description''
     = Some (PStr (normalize_text (dget m ''description'' (PStr []))))"
  by (simp add: normalize_message_def Let_def setdefault_apply)

lemma normalize_message_category:
  "normalize_message l m ''category''
     = Some (PStr (normalize_text (dget m ''category'' (PStr []))))"
  by (simp add: normalize_message_def Let_def setdefault_apply)

lemma normalize_message_location:
  "normalize_message l m ''location''
     = Some (PStr (normalize_text (dget m ''location'' (PStr []))))"
  by (simp add: normalize_message_def Let_def setdefault_apply)

lemma normalize_message_date_lost:
  "normalize_message l m ''date_lost'' = Some (dget m ''date_lost'' (PStr []))"
  by (simp add: normalize_message_def Let_def setdefault_apply dget_upd dget_del dget_setdefault)

lemma normalize_message_contact_kept:
  "truthy (dget m ''contact_info'' PNone) \<Longrightarrow>
   normalize_message l m ''contact_info'' = m ''contact_info''"
  by (simp add: normalize_message_def Let_def setdefault_apply dget_upd dget_del dget_setdefault)
    (auto simp: dget_def split: option.splits)

lemma normalize_message_contact_built:
  "\<not> truthy (dget m ''contact_info'' PNone) \<Longrightarrow>
   normalize_message l m ''contact_info'' =
     Some (PStr (join (py '', '')
       ((if truthy (dget m ''contact_email'' (PStr []))
         then [py_str (dget m ''contact_email'' (PStr []))] else []) @
        (if truthy (dget m ''contact_phone'' (PStr []))
         then [py_str (dget m ''contact_phone'' (PStr []))] else []))))"
  by (simp add: normalize_message_def Let_def setdefault_apply dget_upd dget_del dget_setdefault)

lemma sum_squares_div:
  "(\<Sum>x\<leftarrow>map (\<lambda>x. x / c) v. x * x) = (\<Sum>x\<leftarrow>v. x * x) / (c * c)"
  for c :: real
  by (induction v) (simp_all add: add_divide_distrib)

lemma sum_squares_nonneg: "0 \<le> (\<Sum>x\<leftarrow>v. x * x)" for v :: "real list"
  by (induction v) simp_all

lemma sum_squares_zero_iff: "(\<Sum>x\<leftarrow>v. x * x) = 0 \<longleftrightarrow> (\<forall>x\<in>set v. x = 0)"
  for v :: "real list"
proof (induction v)
  case Nil
  show ?case by simp
next
  case (Cons a v)
  have "a * a + (\<Sum>x\<leftarrow>v. x * x) = 0 \<longleftrightarrow> a * a = 0 \<and> (\<Sum>x\<leftarrow>v. x * x) = 0"
    by (rule add_nonneg_eq_0_iff) (simp_all add: sum_squares_nonneg)
  with Cons show ?case by simp
qed

lemma l2norm_nonneg: "0 \<le> l2norm v"
  by (simp add: l2norm_def sum_squares_nonneg)

lemma l2norm_div:
  assumes "0 < c"
  shows "l2norm (map (\<lambda>x. x / c) v) = l2norm v / c"
proof -
  have "l2norm (map (\<lambda>x. x / c) v) = sqrt ((\<Sum>x\<leftarrow>v. x * x) / (c * c))"
    unfolding l2norm_def sum_squares_div ..
  also have "\<dots> = sqrt (\<Sum>x\<leftarrow>v. x * x) / \<bar>c\<bar>"
    by (simp add: real_sqrt_divide)
  finally show ?thesis using assms by (simp add: l2norm_def)
qed

lemma l2norm_unit:
  assumes "l2norm v \<noteq> 0"
  shows "l2norm (map (\<lambda>x. x / l2norm v) v) = 1"
proof -
  from assms l2norm_nonneg [of v] have "0 < l2norm v" by simp
  then show ?thesis using assms by (simp add: l2norm_div)
qed

lemma l2norm_zero_iff: "l2norm v = 0 \<longleftrightarrow> \<not> list_ex (\<lambda>x. x \<noteq> 0) v"
  by (simp add: l2norm_def sum_squares_zero_iff list_ex_iff)

lemma np_unit_Arr:
  "l2norm v \<noteq> 0 \<Longrightarrow> np_unit v = Arr (map (\<lambda>x. x / l2norm v) v)"
  by (simp add: np_unit_def Let_def)

lemma weighted_sum:
  "length a = length b \<Longrightarrow>
   np_add (np_scale w a) (np_scale u b) = Inr (map2 (\<lambda>x y. w * x + u * y) a b)"
  by (induction a b rule: list_induct2) (simp_all add: np_add_def np_binop_def np_scale_def)

lemma combine_embeddings_eq:
  "length a = length b \<Longrightarrow> 0 \<le> w \<Longrightarrow> w \<le> 1 \<Longrightarrow>
   combine_embeddings a b w = Inr (np_unit (map2 (\<lambda>x y. w * x + (1 - w) * y) a b))"
  by (simp add: combine_embeddings_def weighted_sum Let_def)

lemma map2_fst: "length a = length b \<Longrightarrow> map2 (\<lambda>x y. x) a b = a"
  by (induction a b rule: list_induct2) simp_all

lemma map2_snd: "length a = length b \<Longrightarrow> map2 (\<lambda>x y. y) a b = b"
  by (induction a b rule: list_induct2) simp_all

lemma np_unit_of_unit: "l2norm v = 1 \<Longrightarrow> np_unit v = Arr v"
  by (simp add: np_unit_def Let_def)

lemma final_embedding_average:
  "length t = length i \<Longrightarrow>
   final_embedding t (Some i) = Inr (map2 (\<lambda>x y. (x + y) / 2) t i)"
  by (induction t i rule: list_induct2) (simp_all add: final_embedding_def np_add_def np_binop_def)

lemma process_message_publishes:
  "json_loads w body = Inr (Dict raw) \<Longrightarrow>
   validate_message (normalize_message (lib w) raw) = Inr (True, r) \<Longrightarrow>
   build_record w (normalize_message (lib w) raw) = Inr vm \<Longrightarrow>
   basic_publish w vm = Inr () \<Longrightarrow>
   process_message w body = \<lparr>ops = [Publish vm, BasicAck], raised = None\<rparr>"
  by (simp add: process_message_def process_body_def publish_and_ack_def handle_def)

lemma process_message_enhanced_requeues:
  "json_loads w body = Inr (Dict raw) \<Longrightarrow>
   process_message_enhanced w body = \<lparr>ops = [BasicNack True], raised = None\<rparr>"
  by (simp add: process_message_enhanced_def process_body_enhanced_def handle_def)

lemma fuse_enhanced_weighted:
  assumes "length t = length i"
    and "list_ex (\<lambda>x. x \<noteq> 0) (map2 (\<lambda>x y. 6 / 10 * x + 4 / 10 * y) t i)"
  shows "fuse_enhanced t (Some i) =
           Inr (Arr (map (\<lambda>x. x / l2norm (map2 (\<lambda>x y. 6 / 10 * x + 4 / 10 * y) t i))
                      (map2 (\<lambda>x y. 6 / 10 * x + 4 / 10 * y) t i)))"
proof -
  let ?c = "map2 (\<lambda>x y. 6 / 10 * x + 4 / 10 * y) t i"
  from assms(2) have n: "l2norm ?c \<noteq> 0" by (simp add: l2norm_zero_iff)
  have "combine_embeddings t i (6 / 10)
      = Inr (np_unit (map2 (\<lambda>x y. 6 / 10 * x + (1 - 6 / 10) * y) t i))"
    using assms(1) by (intro combine_embeddings_eq) simp_all
  then show ?thesis
    using np_unit_Arr [OF n] by (simp add: fuse_enhanced_def)
qed

lemma mix5:
  "map2 (\<lambda>x y. 6 / 10 * x + 4 / 10 * y) [1, 0, 0, 0, 0] [1 / 4, 3 / 4, 1 / 2, 1 / 4, 1 / 4]
     = [7 / 10, 3 / 10, 1 / 5, 1 / 10, 1 / 10 :: real]"
  by simp

lemma norm5: "l2norm [7 / 10, 3 / 10, 1 / 5, 1 / 10, 1 / 10] = 4 / 5"
proof -
  have s: "(\<Sum>x\<leftarrow>[7 / 10, 3 / 10, 1 / 5, 1 / 10, 1 / 10 :: real]. x * x) = (4 / 5) * (4 / 5)"
    by simp
  show ?thesis
    using real_sqrt_abs2 [of "4 / 5 :: real"] unfolding l2norm_def s by simp
qed

lemma ex1: "extract_image_key web_lib legacy_wallet = py ''items/wallet.jpg''"
  by (simp add: extract_image_key_def legacy_wallet_def wallet_def web_lib_def url_to_object_key_def
     split_once_def last_segment_def strip_chars_def strip_with_def strip_def isspace_def py_def Let_def)

lemma validate_message_surrogate:
  "truthy (dget m ''item_id'' PNone) \<Longrightarrow> truthy (dget m ''text'' PNone) \<Longrightarrow>
   dget m ''image_key'' (PStr []) = PStr key \<Longrightarrow> key \<noteq> [] \<Longrightarrow>
   \<not> list_ex (\<lambda>ch. ch \<in> set key) invalid_chars \<Longrightarrow> list_ex is_surrogate key \<Longrightarrow>
   validate_message m = Inl UnicodeEncodeError"
  by (simp add: validate_message_def is_valid_object_key_def utf8_length_def)

section \<open>Fusion of the embeddings\<close>

text \<open>
  C1. The published embedding is claimed to be the weighted sum
  \<open>0.6 * text + 0.4 * image\<close>, scaled to unit length, whenever both embeddings exist, and
  the text embedding itself otherwise. The worker of \<^verbatim>\<open>main.py\<close> publishes the plain
  average \<open>(text + image) / 2\<close>, which it does not rescale, and the text embedding unchanged
  when there is no image embedding. The fusion step of \<^verbatim>\<open>main_enhanced.py\<close> (lines 188
  to 201) returns the text embedding unchanged without an image embedding, and otherwise,
  for embeddings of equal dimension whose weighted sum is not the zero vector, the weighted
  sum scaled to unit length.
\<close>

theorem fused_embedding_published:
  "(encode_text w (combined_text message) = Inr t \<and> image_embedding w message = None \<longrightarrow>
      build_record w message = Inr (create_output_message message (Arr t) False (utcnow w))) \<and>
   (encode_text w (combined_text message) = Inr t \<and> image_embedding w message = Some i \<and>
    length t = length i \<longrightarrow>
      build_record w message =
        Inr (create_output_message message (Arr (map2 (\<lambda>x y. (x + y) / 2) t i)) True (utcnow w))) \<and>
   (json_loads w body = Inr (Dict raw) \<and>
    validate_message (normalize_message (lib w) raw) = Inr (True, r) \<and>
    build_record w (normalize_message (lib w) raw) = Inr vm \<and>
    basic_publish w vm = Inr () \<longrightarrow>
      ops (process_message w body) = [Publish vm, BasicAck]) \<and>
   fuse_enhanced t None = Inr (Arr t) \<and>
   (length t = length i \<and>
    list_ex (\<lambda>x. x \<noteq> 0) (map2 (\<lambda>x y. 6 / 10 * x + 4 / 10 * y) t i) \<longrightarrow>
      fuse_enhanced t (Some i) =
        Inr (Arr (map (\<lambda>x. x / l2norm (map2 (\<lambda>x y. 6 / 10 * x + 4 / 10 * y) t i))
                   (map2 (\<lambda>x y. 6 / 10 * x + 4 / 10 * y) t i))) \<and>
      l2norm (map (\<lambda>x. x / l2norm (map2 (\<lambda>x y. 6 / 10 * x + 4 / 10 * y) t i))
                (map2 (\<lambda>x y. 6 / 10 * x + 4 / 10 * y) t i)) = 1)"
proof (intro conjI impI; (elim conjE)?)
  assume "encode_text w (combined_text message) = Inr t" "image_embedding w message = None"
  then show "build_record w message = Inr (create_output_message message (Arr t) False (utcnow w))"
    by (simp add: build_record_def final_embedding_def)
next
  assume "encode_text w (combined_text message) = Inr t" "image_embedding w message = Some i"
    "length t = length i"
  then show "build_record w message =
        Inr (create_output_message message (Arr (map2 (\<lambda>x y. (x + y) / 2) t i)) True (utcnow w))"
    by (simp add: build_record_def final_embedding_average)
next
  assume "json_loads w body = Inr (Dict raw)"
    "validate_message (normalize_message (lib w) raw) = Inr (True, r)"
    "build_record w (normalize_message (lib w) raw) = Inr vm" "basic_publish w vm = Inr ()"
  then show "ops (process_message w body) = [Publish vm, BasicAck]"
    by (simp add: process_message_publishes)
next
  show "fuse_enhanced t None = Inr (Arr t)"
    by (simp add: fuse_enhanced_def)
next
  let ?c = "map2 (\<lambda>x y. 6 / 10 * x + 4 / 10 * y) t i"
  assume len: "length t = length i" and nz: "list_ex (\<lambda>x. x \<noteq> 0) ?c"
  show "fuse_enhanced t (Some i) = Inr (Arr (map (\<lambda>x. x / l2norm ?c) ?c))"
    using len nz by (rule fuse_enhanced_weighted)
  from nz have "l2norm ?c \<noteq> 0" by (simp add: l2norm_zero_iff)
  then show "l2norm (map (\<lambda>x. x / l2norm ?c) ?c) = 1"
    by (rule l2norm_unit)
qed

text \<open>
  The theorem at work: the average that \<^verbatim>\<open>main.py\<close> publishes, its text-only record,
  and the fusion step of \<^verbatim>\<open>main_enhanced.py\<close> on two different unit vectors of
  dimension five, where the weighted sum \<open>[0.7, 0.3, 0.2, 0.1, 0.1]\<close> has length
  \<open>0.8\<close> and is scaled to \<open>[7/8, 3/8, 1/4, 1/8, 1/8]\<close>.
\<close>

theorem fused_embedding_witness:
  "ops (process_message (example_world wallet_photo full_store [1, 0] [0, 1] (Inr ())) []) =
     [Publish (create_output_message (normalize_message no_urls wallet_photo)
        (Arr [1 / 2, 1 / 2]) True (py ''2024-12-06T12:00:00'')), BasicAck] \<and>
   build_record (example_world wallet empty_store [1, 0] [0, 1] (Inr ()))
     (normalize_message no_urls wallet) =
     Inr (create_output_message (normalize_message no_urls wallet) (Arr [1, 0])
        False (py ''2024-12-06T12:00:00'')) \<and>
   l2norm [1, 0, 0, 0, 0] = 1 \<and> l2norm [1 / 4, 3 / 4, 1 / 2, 1 / 4, 1 / 4] = 1 \<and>
   fuse_enhanced [1, 0, 0, 0, 0] (Some [1 / 4, 3 / 4, 1 / 2, 1 / 4, 1 / 4]) =
     Inr (Arr [7 / 8, 3 / 8, 1 / 4, 1 / 8, 1 / 8]) \<and>
   l2norm [7 / 8, 3 / 8, 1 / 4, 1 / 8, 1 / 8] = 1 \<and>
   fuse_enhanced [1, 0, 0, 0, 0] None = Inr (Arr [1, 0, 0, 0, 0])"
proof -
  let ?w = "example_world wallet_photo full_store [1, 0] [0, 1] (Inr ())"
  let ?m = "normalize_message no_urls wallet_photo"
  let ?vm = "create_output_message ?m (Arr [1 / 2, 1 / 2]) True (py ''2024-12-06T12:00:00'')"
  let ?wt = "example_world wallet empty_store [1, 0] [0, 1] (Inr ())"
  let ?mt = "normalize_message no_urls wallet"
  let ?a = "[1, 0, 0, 0, 0] :: real list"
  let ?b = "[1 / 4, 3 / 4, 1 / 2, 1 / 4, 1 / 4] :: real list"
  have t: "encode_text ?w (combined_text ?m) = Inr [1, 0]"
    "encode_text ?wt (combined_text ?mt) = Inr [1, 0]"
    by (simp_all add: example_world_def)
  have i: "image_embedding ?w ?m = Some [0, 1]"
    by (simp add: eval_defs)
  have it: "image_embedding ?wt ?mt = None"
    by (simp add: eval_defs)
  have u: "utcnow ?w = py ''2024-12-06T12:00:00''" "utcnow ?wt = py ''2024-12-06T12:00:00''"
    by (simp_all add: example_world_def)
  have b: "build_record ?w ?m = Inr ?vm"
    using t i u fused_embedding_published [of ?w ?m "[1, 0]" "[0, 1]"] by simp
  have bt: "build_record ?wt ?mt =
      Inr (create_output_message ?mt (Arr [1, 0]) False (py ''2024-12-06T12:00:00''))"
    using t it u fused_embedding_published [of ?wt ?mt "[1, 0]"] by simp
  have j: "json_loads ?w [] = Inr (Dict wallet_photo)" "lib ?w = no_urls"
    "basic_publish ?w ?vm = Inr ()"
    by (simp_all add: example_world_def)
  have v: "validate_message ?m = Inr (True, None)"
    by (simp add: eval_defs)
  have p: "ops (process_message ?w []) = [Publish ?vm, BasicAck]"
    using j v b
      fused_embedding_published [where w = ?w and body = "[]" and raw = wallet_photo
        and r = None and vm = ?vm]
    by simp
  have na: "l2norm ?a = 1"
    by (simp add: l2norm_def)
  have "(\<Sum>x\<leftarrow>?b. x * x) = 1" by simp
  then have nb: "l2norm ?b = 1"
    by (simp only: l2norm_def real_sqrt_one)
  have nz: "length ?a = length ?b \<and>
      list_ex (\<lambda>x. x \<noteq> 0) (map2 (\<lambda>x y. 6 / 10 * x + 4 / 10 * y) ?a ?b)"
    by simp
  have sc: "map (\<lambda>x. x / (4 / 5)) [7 / 10, 3 / 10, 1 / 5, 1 / 10, 1 / 10 :: real]
      = [7 / 8, 3 / 8, 1 / 4, 1 / 8, 1 / 8]"
    by simp
  from nz fused_embedding_published [where t = ?a and i = ?b]
  have "fuse_enhanced ?a (Some ?b) =
        Inr (Arr (map (\<lambda>x. x / l2norm (map2 (\<lambda>x y. 6 / 10 * x + 4 / 10 * y) ?a ?b))
                   (map2 (\<lambda>x y. 6 / 10 * x + 4 / 10 * y) ?a ?b))) \<and>
      l2norm (map (\<lambda>x. x / l2norm (map2 (\<lambda>x y. 6 / 10 * x + 4 / 10 * y) ?a ?b))
                (map2 (\<lambda>x y. 6 / 10 * x + 4 / 10 * y) ?a ?b)) = 1"
    by blast
  then have f: "fuse_enhanced ?a (Some ?b) = Inr (Arr [7 / 8, 3 / 8, 1 / 4, 1 / 8, 1 / 8]) \<and>
      l2norm [7 / 8, 3 / 8, 1 / 4, 1 / 8, 1 / 8] = 1"
    unfolding mix5 norm5 sc .
  have g: "fuse_enhanced ?a None = Inr (Arr ?a)"
    using fused_embedding_published [where t = ?a] by blast
  from p bt na nb f g show ?thesis by blast
qed

text \<open>
  The claim fails on \<^verbatim>\<open>main.py\<close>: for the unit vectors \<open>[1, 0]\<close> and
  \<open>[0, 1]\<close> it publishes \<open>[1/2, 1/2]\<close>, which has not unit length and is not the
  rescaled weighted sum.
\<close>

theorem average_not_weighted_counterexample:
  "ops (process_message (example_world wallet_photo full_store [1, 0] [0, 1] (Inr ())) []) =
     [Publish (create_output_message (normalize_message no_urls wallet_photo) (Arr [1 / 2, 1 / 2])
        True (py ''2024-12-06T12:00:00'')), BasicAck] \<and>
   l2norm [1 / 2, 1 / 2] \<noteq> 1 \<and>
   Arr [1 / 2, 1 / 2] \<noteq> np_unit (map2 (\<lambda>x y. 6 / 10 * x + 4 / 10 * y) [1, 0] [0, 1])"
proof -
  have a: "ops (process_message (example_world wallet_photo full_store [1, 0] [0, 1] (Inr ())) []) =
     [Publish (create_output_message (normalize_message no_urls wallet_photo) (Arr [1 / 2, 1 / 2])
        True (py ''2024-12-06T12:00:00'')), BasicAck]"
    by (simp add: eval_defs)
  have b: "l2norm [1 / 2, 1 / 2] \<noteq> 1"
    by (simp add: l2norm_def)
  have n: "l2norm (map2 (\<lambda>x y. 6 / 10 * x + 4 / 10 * y) [1, 0] [0, 1]) \<noteq> 0"
    by (simp add: l2norm_zero_iff)
  have "l2norm (map (\<lambda>x. x / l2norm (map2 (\<lambda>x y. 6 / 10 * x + 4 / 10 * y) [1, 0] [0, 1]))
      (map2 (\<lambda>x y. 6 / 10 * x + 4 / 10 * y) [1, 0] [0, 1])) = 1"
    by (rule l2norm_unit [OF n])
  with b have c: "Arr [1 / 2, 1 / 2] \<noteq> np_unit (map2 (\<lambda>x y. 6 / 10 * x + 4 / 10 * y) [1, 0] [0, 1])"
    unfolding np_unit_Arr [OF n] by auto
  from a b c show ?thesis by blast
qed

section \<open>Rejection of a message without item id\<close>

text \<open>
  C2. A message whose normalised form has an empty (falsy) \<^verbatim>\<open>item_id\<close> fails
  validation with a reason that mentions \<^verbatim>\<open>item_id\<close>. The worker of
  \<^verbatim>\<open>main.py\<close> then acknowledges it (\<^verbatim>\<open>basic_ack\<close>): the message leaves the
  queue, nothing is published, and no negative acknowledgement is sent.
\<close>

theorem missing_item_id_acked:
  "json_loads w body = Inr (Dict raw) \<and>
   \<not> truthy (dget (normalize_message (lib w) raw) ''item_id'' PNone) \<longrightarrow>
   validate_message (normalize_message (lib w) raw)
     = Inr (False, Some (py ''Missing required field: item_id'')) \<and>
   contains (py ''item_id'') (py ''Missing required field: item_id'') \<and>
   process_message w body = \<lparr>ops = [BasicAck], raised = None\<rparr>"
proof -
  have c: "contains (py ''item_id'') (py ''Missing required field: item_id'')"
    by (simp add: py_def)
  show ?thesis
    using c by (simp add: process_message_def process_body_def validate_message_def handle_def)
qed

theorem missing_item_id_acked_witness:
  "json_loads (example_world no_id empty_store [1] [1] (Inr ())) [] = Inr (Dict no_id) \<and>
   \<not> truthy (dget (normalize_message no_urls no_id) ''item_id'' PNone) \<and>
   process_message (example_world no_id empty_store [1] [1] (Inr ())) []
     = \<lparr>ops = [BasicAck], raised = None\<rparr>"
proof -
  have a: "json_loads (example_world no_id empty_store [1] [1] (Inr ())) [] = Inr (Dict no_id)"
    by (simp add: example_world_def)
  have l: "lib (example_world no_id empty_store [1] [1] (Inr ())) = no_urls"
    by (simp add: example_world_def)
  have b: "\<not> truthy (dget (normalize_message no_urls no_id) ''item_id'' PNone)"
    by (simp add: normalize_message_def Let_def setdefault_def dget_def no_id_def)
  show ?thesis
    using a b l missing_item_id_acked [of "example_world no_id empty_store [1] [1] (Inr ())" "[]" no_id]
    by simp
qed

text \<open>
  The claim says the message is rejected without requeue; the run answers with
  \<^verbatim>\<open>basic_ack\<close>, not with \<^verbatim>\<open>basic_nack(requeue=False)\<close>.
\<close>

theorem missing_item_id_counterexample:
  "json_loads (example_world no_id empty_store [1] [1] (Inr ())) [] = Inr (Dict no_id) \<and>
   dget (normalize_message (lib (example_world no_id empty_store [1] [1] (Inr ()))) no_id)
     ''item_id'' PNone = PStr [] \<and>
   ops (process_message (example_world no_id empty_store [1] [1] (Inr ())) []) = [BasicAck] \<and>
   ops (process_message (example_world no_id empty_store [1] [1] (Inr ())) [])
     \<noteq> [BasicNack False]"
  by (simp add: eval_defs)

section \<open>Dimension mismatch\<close>

text \<open>
  C3. A fused embedding whose dimension is not 512 is claimed to stop the worker, with the
  message neither requeued nor published. In \<^verbatim>\<open>main_enhanced.py\<close> the steps on a
  normalised message (lines 143 to 230) raise \<^verbatim>\<open>ValueError\<close> at the dimension
  check, so no record is built, and the handlers of \<^verbatim>\<open>process_message\<close> answer that
  exception with \<^verbatim>\<open>basic_nack(requeue=True)\<close>. The worker of \<^verbatim>\<open>main.py\<close> has
  no dimension check: it publishes and acknowledges the record whatever the dimension of the
  embedding.
\<close>

theorem dimension_mismatch_requeued:
  "(create_enhanced_text (lib w)
      (dget message ''title'' (PStr [])) (dget message ''description'' (PStr []))
      (dget message ''category'' (PStr [])) (dget message ''location'' (PStr [])) = Inr enhanced_text \<and>
    encode_text w enhanced_text = Inr t \<and>
    fuse_enhanced t (image_embedding w message) = Inr fe \<and>
    nd_len fe \<noteq> 512 \<longrightarrow>
      build_record_enhanced w message = Inl ValueError \<and>
      ops (handle (embed_and_publish_enhanced w message)) = [BasicNack True]) \<and>
   (json_loads w body = Inr (Dict raw) \<and>
    validate_message (normalize_message (lib w) raw) = Inr (True, r) \<and>
    encode_text w (combined_text (normalize_message (lib w) raw)) = Inr t \<and>
    image_embedding w (normalize_message (lib w) raw) = None \<and>
    basic_publish w
      (create_output_message (normalize_message (lib w) raw) (Arr t) False (utcnow w)) = Inr () \<longrightarrow>
      ops (process_message w body) =
        [Publish (create_output_message (normalize_message (lib w) raw) (Arr t) False (utcnow w)),
         BasicAck])"
proof (intro conjI impI; (elim conjE)?)
  assume a: "create_enhanced_text (lib w)
      (dget message ''title'' (PStr [])) (dget message ''description'' (PStr []))
      (dget message ''category'' (PStr [])) (dget message ''location'' (PStr [])) = Inr enhanced_text"
    "encode_text w enhanced_text = Inr t"
    "fuse_enhanced t (image_embedding w message) = Inr fe" "nd_len fe \<noteq> 512"
  then show b: "build_record_enhanced w message = Inl ValueError"
    by (simp add: build_record_enhanced_def Let_def)
  then show "ops (handle (embed_and_publish_enhanced w message)) = [BasicNack True]"
    by (simp add: embed_and_publish_enhanced_def handle_def)
next
  let ?m = "normalize_message (lib w) raw"
  assume a: "json_loads w body = Inr (Dict raw)" "validate_message ?m = Inr (True, r)"
    "encode_text w (combined_text ?m) = Inr t" "image_embedding w ?m = None"
    "basic_publish w (create_output_message ?m (Arr t) False (utcnow w)) = Inr ()"
  then have "build_record w ?m = Inr (create_output_message ?m (Arr t) False (utcnow w))"
    by (simp add: build_record_def final_embedding_def)
  with a show "ops (process_message w body) =
      [Publish (create_output_message ?m (Arr t) False (utcnow w)), BasicAck]"
    by (simp add: process_message_publishes)
qed

text \<open>
  The theorem at work, for a text embedding of dimension one: the enhanced steps raise and
  are answered with a requeue, and \<^verbatim>\<open>main.py\<close> publishes the record.
\<close>

theorem dimension_mismatch_witness:
  "fuse_enhanced [1]
     (image_embedding (example_world wallet_titled empty_store [1] [1] (Inr ())) wallet_titled)
     = Inr (Arr [1]) \<and>
   nd_len (Arr [1]) \<noteq> 512 \<and>
   build_record_enhanced (example_world wallet_titled empty_store [1] [1] (Inr ())) wallet_titled
     = Inl ValueError \<and>
   ops (handle (embed_and_publish_enhanced
          (example_world wallet_titled empty_store [1] [1] (Inr ())) wallet_titled))
     = [BasicNack True] \<and>
   ops (process_message (example_world wallet empty_store [1] [1] (Inr ())) []) =
     [Publish (create_output_message (normalize_message no_urls wallet) (Arr [1]) False
        (py ''2024-12-06T12:00:00'')), BasicAck]"
proof -
  let ?w = "example_world wallet_titled empty_store [1] [1] (Inr ())"
  let ?v = "example_world wallet empty_store [1] [1] (Inr ())"
  let ?m = "normalize_message no_urls wallet"
  have c: "create_enhanced_text (lib ?w)
     (dget wallet_titled ''title'' (PStr [])) (dget wallet_titled ''description'' (PStr []))
     (dget wallet_titled ''category'' (PStr [])) (dget wallet_titled ''location'' (PStr []))
     = Inr (py ''lost wallet lost wallet'')"
    by (simp add: eval_defs enh_defs)
  have d: "encode_text ?w (py ''lost wallet lost wallet'') = Inr [1]"
    by (simp add: example_world_def)
  have e: "fuse_enhanced [1] (image_embedding ?w wallet_titled) = Inr (Arr [1])"
    by (simp add: eval_defs enh_defs)
  have f: "nd_len (Arr [1]) \<noteq> 512" by simp
  have x: "build_record_enhanced ?w wallet_titled = Inl ValueError \<and>
      ops (handle (embed_and_publish_enhanced ?w wallet_titled)) = [BasicNack True]"
    using c d e f
      dimension_mismatch_requeued [where w = ?w and message = wallet_titled
        and enhanced_text = "py ''lost wallet lost wallet''" and t = "[1]" and fe = "Arr [1]"]
    by blast
  have j: "json_loads ?v [] = Inr (Dict wallet)" "lib ?v = no_urls"
    "utcnow ?v = py ''2024-12-06T12:00:00''"
    "encode_text ?v (combined_text ?m) = Inr [1]"
    "basic_publish ?v (create_output_message ?m (Arr [1]) False (py ''2024-12-06T12:00:00''))
       = Inr ()"
    by (simp_all add: example_world_def)
  have v: "validate_message ?m = Inr (True, None)"
    by (simp add: eval_defs)
  have i: "image_embedding ?v ?m = None"
    by (simp add: eval_defs)
  have y: "ops (process_message ?v []) =
     [Publish (create_output_message ?m (Arr [1]) False (py ''2024-12-06T12:00:00'')), BasicAck]"
    using j v i
      dimension_mismatch_requeued [where w = ?v and body = "[]" and raw = wallet
        and r = None and t = "[1]"]
    by simp
  from e f x y show ?thesis by blast
qed

text \<open>
  The claim says no record is published for an embedding of the wrong dimension;
  \<^verbatim>\<open>main.py\<close> publishes and acknowledges a record whose embedding has dimension one.
\<close>

theorem dimension_mismatch_counterexample:
  "json_loads (example_world wallet empty_store [1] [1] (Inr ())) [] = Inr (Dict wallet) \<and>
   encode_text (example_world wallet empty_store [1] [1] (Inr ()))
     (combined_text (normalize_message no_urls wallet)) = Inr [1] \<and>
   length [1 :: real] \<noteq> 512 \<and>
   ops (process_message (example_world wallet empty_store [1] [1] (Inr ())) []) =
     [Publish (create_output_message (normalize_message no_urls wallet) (Arr [1]) False
        (py ''2024-12-06T12:00:00'')), BasicAck]"
  by (simp add: eval_defs)

section \<open>Object-key canonicalisation\<close>

text \<open>
  C4. Canonicalising an image key is claimed idempotent. The code strips slashes before it
  turns backslashes into slashes, so a key that starts with a backslash keeps a leading
  slash, which a second pass removes: on the key \<^verbatim>\<open>\items\a.jpg\<close> (code point 92
  is the backslash) the first pass gives \<^verbatim>\<open>/items/a.jpg\<close> and the second
  \<^verbatim>\<open>items/a.jpg\<close>. The docstring of \<^verbatim>\<open>_normalize_object_key\<close> promises
  that leading slashes are removed.
\<close>

theorem normalize_object_key_leading_backslash:
  "normalize_object_key (92 # py ''items'' @ 92 # py ''a.jpg'') = py ''/items/a.jpg'' \<and>
   normalize_object_key (normalize_object_key (92 # py ''items'' @ 92 # py ''a.jpg''))
     = py ''items/a.jpg''"
  by code_simp

section \<open>Validation\<close>

text \<open>
  C5. For an item whose \<^verbatim>\<open>image_key\<close> is a string that UTF-8 can encode,
  \<^verbatim>\<open>validate_message\<close> fails exactly when the item id is falsy, or text, description
  and category are all falsy, or the key is not empty and holds a backslash, a NUL, a line
  feed, a carriage return or a tab, or is longer than 1024 bytes in UTF-8; otherwise it
  succeeds. The backslash is in the code's list and not in the claim's.
\<close>

theorem validate_message_fails_iff:
  "dget m ''image_key'' (PStr []) = PStr key \<and> \<not> list_ex is_surrogate key \<longrightarrow>
     (validation_failure m key \<longrightarrow> (\<exists>reason. validate_message m = Inr (False, Some reason))) \<and>
     (\<not> validation_failure m key \<longrightarrow> validate_message m = Inr (True, None))"
  by (auto simp: validate_message_def validation_failure_def is_valid_object_key_def
      utf8_length_def invalid_chars_def Let_def)

theorem validate_message_witness:
  "validate_message wallet_photo = Inr (True, None) \<and>
   (\<exists>reason. validate_message backslash_key = Inr (False, Some reason)) \<and>
   (\<exists>reason. validate_message no_text = Inr (False, Some reason))"
proof -
  have a: "dget wallet_photo ''image_key'' (PStr []) = PStr (py ''items/a.jpg'') \<and>
      \<not> list_ex is_surrogate (py ''items/a.jpg'')"
    by (simp add: eval_defs)
  have b: "\<not> validation_failure wallet_photo (py ''items/a.jpg'')"
    by (simp add: validation_failure_def eval_defs)
  have c: "dget backslash_key ''image_key'' (PStr []) = PStr [97, 92, 98] \<and>
      \<not> list_ex is_surrogate [97, 92, 98]"
    by (simp add: eval_defs backslash_key_def)
  have d: "validation_failure backslash_key [97, 92, 98]"
    by (simp add: validation_failure_def)
  have e: "dget no_text ''image_key'' (PStr []) = PStr [] \<and> \<not> list_ex is_surrogate []"
    by (simp add: eval_defs)
  have f: "validation_failure no_text []"
    by (simp add: validation_failure_def eval_defs)
  show ?thesis
    using a b c d e f
      validate_message_fails_iff [of wallet_photo "py ''items/a.jpg''"]
      validate_message_fails_iff [of backslash_key "[97, 92, 98]"]
      validate_message_fails_iff [of no_text "[]"]
    by blast
qed

text \<open>
  The claim's conditions all fail for the key \<^verbatim>\<open>a\b\<close>, yet validation fails.
\<close>

theorem validate_message_backslash_counterexample:
  "truthy (dget backslash_key ''item_id'' PNone) \<and>
   truthy (dget backslash_key ''text'' PNone) \<and>
   dget backslash_key ''image_key'' (PStr []) = PStr [97, 92, 98] \<and>
   \<not> list_ex (\<lambda>ch. ch \<in> set [97, 92, 98]) [0, 10, 13, 9 :: nat] \<and>
   utf8_length [97, 92, 98] = Inr 3 \<and>
   validate_message backslash_key
     = Inr (False, Some (py ''Invalid image_key format: '' @ [97, 92, 98]))"
  by (simp add: eval_defs backslash_key_def)

section \<open>Normalisation of the text fields\<close>

text \<open>
  C6. \<^verbatim>\<open>text\<close>, \<^verbatim>\<open>description\<close>, \<^verbatim>\<open>category\<close> and
  \<^verbatim>\<open>location\<close> leave the normaliser as strings in normal form, empty when the field
  is missing or \<^verbatim>\<open>None\<close>. \<^verbatim>\<open>date_lost\<close> is copied as it is (the empty
  string when missing); \<^verbatim>\<open>contact_info\<close> is copied as it is when truthy and is
  otherwise built from the e-mail address and the telephone number.
\<close>

theorem normalize_message_text_fields:
  "(\<forall>k \<in> set [''text'', ''description'', ''category'', ''location''].
      normalize_message l m k = Some (PStr (normalize_text (dget m k (PStr [])))) \<and>
      ws_normal (normalize_text (dget m k (PStr []))) \<and>
      (m k = None \<or> m k = Some PNone \<longrightarrow> normalize_message l m k = Some (PStr []))) \<and>
   normalize_message l m ''date_lost'' = Some (dget m ''date_lost'' (PStr [])) \<and>
   (truthy (dget m ''contact_info'' PNone) \<longrightarrow>
      normalize_message l m ''contact_info'' = m ''contact_info'') \<and>
   (\<not> truthy (dget m ''contact_info'' PNone) \<longrightarrow>
      normalize_message l m ''contact_info'' =
        Some (PStr (join (py '', '')
          ((if truthy (dget m ''contact_email'' (PStr []))
            then [py_str (dget m ''contact_email'' (PStr []))] else []) @
           (if truthy (dget m ''contact_phone'' (PStr []))
            then [py_str (dget m ''contact_phone'' (PStr []))] else [])))))"
proof (intro conjI ballI impI)
  fix k
  assume "k \<in> set [''text'', ''description'', ''category'', ''location'']"
  then have k: "k = ''text'' \<or> k = ''description'' \<or> k = ''category'' \<or> k = ''location''"
    by simp
  then show f: "normalize_message l m k = Some (PStr (normalize_text (dget m k (PStr []))))"
    using normalize_message_text normalize_message_description normalize_message_category
      normalize_message_location by blast
  show "ws_normal (normalize_text (dget m k (PStr [])))"
    by (rule normalize_text_ws_normal)
  assume "m k = None \<or> m k = Some PNone"
  then have "normalize_text (dget m k (PStr [])) = []"
    by (rule normalize_text_absent)
  with f show "normalize_message l m k = Some (PStr [])"
    by simp
next
  show "normalize_message l m ''date_lost'' = Some (dget m ''date_lost'' (PStr []))"
    by (rule normalize_message_date_lost)
next
  assume "truthy (dget m ''contact_info'' PNone)"
  then show "normalize_message l m ''contact_info'' = m ''contact_info''"
    by (rule normalize_message_contact_kept)
next
  assume "\<not> truthy (dget m ''contact_info'' PNone)"
  then show "normalize_message l m ''contact_info'' =
        Some (PStr (join (py '', '')
          ((if truthy (dget m ''contact_email'' (PStr []))
            then [py_str (dget m ''contact_email'' (PStr []))] else []) @
           (if truthy (dget m ''contact_phone'' (PStr []))
            then [py_str (dget m ''contact_phone'' (PStr []))] else []))))"
    by (rule normalize_message_contact_built)
qed

theorem normalize_message_text_fields_witness:
  "normalize_message no_urls padded ''description'' = Some (PStr (py ''Contains laptop'')) \<and>
   ws_normal (py ''Contains laptop'') \<and>
   normalize_message no_urls padded ''location'' = Some (PStr []) \<and>
   normalize_message no_urls padded ''date_lost'' = Some (PStr (py ''  2024-12-06  '')) \<and>
   normalize_message no_urls padded ''contact_info'' = Some (PStr (py '' a  b '')) \<and>
   normalize_message no_urls wallet ''contact_info'' = Some (PStr [])"
proof -
  have a: "normalize_text (dget padded ''description'' (PStr [])) = py ''Contains laptop''"
    "normalize_text (dget padded ''location'' (PStr [])) = []"
    by (simp_all add: eval_defs padded_def)
  have b: "''description'' \<in> set [''text'', ''description'', ''category'', ''location'']"
    "''location'' \<in> set [''text'', ''description'', ''category'', ''location'']"
    by simp_all
  have c: "padded ''location'' = None" "truthy (dget padded ''contact_info'' PNone)"
    "padded ''contact_info'' = Some (PStr (py '' a  b ''))"
    "dget padded ''date_lost'' (PStr []) = PStr (py ''  2024-12-06  '')"
    "\<not> truthy (dget wallet ''contact_info'' PNone)"
    "\<not> truthy (dget wallet ''contact_email'' (PStr []))"
    "\<not> truthy (dget wallet ''contact_phone'' (PStr []))"
    by (simp_all add: eval_defs padded_def)
  show ?thesis
    using a b c normalize_message_text_fields [of no_urls padded]
      normalize_message_text_fields [of no_urls wallet]
    by simp
qed

text \<open>
  The claim covers \<^verbatim>\<open>date_lost\<close> and \<^verbatim>\<open>contact_info\<close> too; both keep
  their white space, and a \<^verbatim>\<open>date_lost\<close> of \<^verbatim>\<open>None\<close> stays
  \<^verbatim>\<open>None\<close>.
\<close>

theorem untrimmed_fields_counterexample:
  "normalize_message no_urls padded ''date_lost'' = Some (PStr (py ''  2024-12-06  '')) \<and>
   strip (py ''  2024-12-06  '') \<noteq> py ''  2024-12-06  '' \<and>
   normalize_message no_urls padded ''contact_info'' = Some (PStr (py '' a  b '')) \<and>
   normalize_message no_urls (wallet(''date_lost'' \<mapsto> PNone)) ''date_lost'' = Some PNone"
  by (simp add: eval_defs padded_def)

section \<open>Weighted combination\<close>

text \<open>
  C7. For unit vectors \<open>a\<close> and \<open>b\<close> of the same dimension \<open>D\<close> and a weight
  \<open>w\<close> between 0 and 1 whose weighted sum is not the zero vector,
  \<^verbatim>\<open>combine_embeddings\<close> returns a unit vector of dimension \<open>D\<close>; it returns
  \<open>a\<close> at weight 1 and \<open>b\<close> at weight 0, and raises \<^verbatim>\<open>ValueError\<close> for a
  weight outside the interval.
\<close>

theorem combine_embeddings_unit:
  "l2norm a = 1 \<and> l2norm b = 1 \<and> length a = D \<and> length b = D \<longrightarrow>
     (0 \<le> w \<and> w \<le> 1 \<and> list_ex (\<lambda>x. x \<noteq> 0) (map2 (\<lambda>x y. w * x + (1 - w) * y) a b) \<longrightarrow>
        (\<exists>v. combine_embeddings a b w = Inr (Arr v) \<and> length v = D \<and> l2norm v = 1)) \<and>
     combine_embeddings a b 1 = Inr (Arr a) \<and>
     combine_embeddings a b 0 = Inr (Arr b) \<and>
     (w < 0 \<or> 1 < w \<longrightarrow> combine_embeddings a b w = Inl ValueError)"
proof (intro impI, elim conjE)
  assume na: "l2norm a = 1" and nb: "l2norm b = 1" and la: "length a = D" and lb: "length b = D"
  let ?c = "map2 (\<lambda>x y. w * x + (1 - w) * y) a b"
  have len: "length a = length b" using la lb by simp
  have main: "\<exists>v. combine_embeddings a b w = Inr (Arr v) \<and> length v = D \<and> l2norm v = 1"
    if w: "0 \<le> w \<and> w \<le> 1 \<and> list_ex (\<lambda>x. x \<noteq> 0) ?c"
  proof -
    from w have nz: "l2norm ?c \<noteq> 0" by (simp add: l2norm_zero_iff)
    have "combine_embeddings a b w = Inr (Arr (map (\<lambda>x. x / l2norm ?c) ?c))"
      using w len by (simp add: combine_embeddings_eq np_unit_Arr [OF nz])
    moreover have "length (map (\<lambda>x. x / l2norm ?c) ?c) = D" using la lb by simp
    moreover have "l2norm (map (\<lambda>x. x / l2norm ?c) ?c) = 1" by (rule l2norm_unit [OF nz])
    ultimately show ?thesis by blast
  qed
  have one: "combine_embeddings a b 1 = Inr (Arr a)"
    using len na by (simp add: combine_embeddings_eq map2_fst np_unit_of_unit)
  have zero: "combine_embeddings a b 0 = Inr (Arr b)"
    using len nb by (simp add: combine_embeddings_eq map2_snd np_unit_of_unit)
  have out: "combine_embeddings a b w = Inl ValueError" if "w < 0 \<or> 1 < w"
    using that by (auto simp: combine_embeddings_def)
  show "(0 \<le> w \<and> w \<le> 1 \<and> list_ex (\<lambda>x. x \<noteq> 0) ?c \<longrightarrow>
        (\<exists>v. combine_embeddings a b w = Inr (Arr v) \<and> length v = D \<and> l2norm v = 1)) \<and>
     combine_embeddings a b 1 = Inr (Arr a) \<and>
     combine_embeddings a b 0 = Inr (Arr b) \<and>
     (w < 0 \<or> 1 < w \<longrightarrow> combine_embeddings a b w = Inl ValueError)"
    using main one zero out by blast
qed

theorem combine_embeddings_unit_witness:
  "l2norm [1, 0] = 1 \<and> l2norm [0, 1] = 1 \<and>
   (\<exists>v. combine_embeddings [1, 0] [0, 1] (6 / 10) = Inr (Arr v) \<and> length v = 2 \<and> l2norm v = 1) \<and>
   combine_embeddings [1, 0] [0, 1] 1 = Inr (Arr [1, 0]) \<and>
   combine_embeddings [1, 0] [0, 1] 0 = Inr (Arr [0, 1]) \<and>
   combine_embeddings [1, 0] [0, 1] 2 = Inl ValueError"
proof -
  have h: "l2norm [1, 0] = 1 \<and> l2norm [0, 1] = 1 \<and> length [1, 0 :: real] = 2 \<and> length [0, 1 :: real] = 2"
    by (simp add: l2norm_def)
  have g: "(0 :: real) \<le> 6 / 10 \<and> (6 / 10 :: real) \<le> 1 \<and>
     list_ex (\<lambda>x. x \<noteq> 0) (map2 (\<lambda>x y. 6 / 10 * x + (1 - 6 / 10) * y) [1, 0] [0, 1 :: real])"
    by simp
  show ?thesis
    using h g combine_embeddings_unit [of "[1, 0]" "[0, 1]" 2 "6 / 10"]
      combine_embeddings_unit [of "[1, 0]" "[0, 1]" 2 2]
    by simp
qed

text \<open>
  Without the condition on the weighted sum the claim fails: opposite unit vectors at weight
  one half sum to zero, and the division by the zero norm gives \<^verbatim>\<open>nan\<close>.
\<close>

theorem combine_embeddings_antipodal_counterexample:
  "l2norm [1, 0] = 1 \<and> l2norm [- 1, 0] = 1 \<and> length [1, 0 :: real] = length [- 1, 0 :: real] \<and>
   (0 :: real) \<le> 1 / 2 \<and> (1 / 2 :: real) \<le> 1 \<and>
   combine_embeddings [1, 0] [- 1, 0] (1 / 2) = Inr (NaNs 2)"
  by (simp add: l2norm_def combine_embeddings_def np_add_def np_binop_def np_scale_def np_unit_def)

section \<open>Image fetch failures\<close>

text \<open>
  C8. When the fetch of the image of a valid message fails (object not found, too large,
  download error, not an image), the worker of \<^verbatim>\<open>main.py\<close> goes on with the text
  alone: the record carries the text embedding and \<^verbatim>\<open>has_image_embedding = False\<close>,
  no exception leaves \<^verbatim>\<open>process_message\<close>, and the message is published and
  acknowledged whenever the publish succeeds.
\<close>

theorem image_fetch_failure_text_only:
  "json_loads w body = Inr (Dict raw) \<and>
   message = normalize_message (lib w) raw \<and>
   validate_message message = Inr (True, r) \<and>
   truthy (dget message ''image_key'' (PStr [])) \<and>
   image_fetch_fails (minio w) (dget message ''image_key'' (PStr [])) \<and>
   encode_text w (combined_text message) = Inr t \<longrightarrow>
   build_record w message = Inr (create_output_message message (Arr t) False (utcnow w)) \<and>
   out_embedding (create_output_message message (Arr t) False (utcnow w)) = Arr t \<and>
   \<not> out_has_image_embedding (create_output_message message (Arr t) False (utcnow w)) \<and>
   raised (process_message w body) = None \<and>
   process_message w body =
     (case basic_publish w (create_output_message message (Arr t) False (utcnow w)) of
        Inr u \<Rightarrow>
          \<lparr>ops = [Publish (create_output_message message (Arr t) False (utcnow w)), BasicAck],
           raised = None\<rparr>
      | Inl e \<Rightarrow> \<lparr>ops = [BasicNack (e \<noteq> JSONDecodeError)], raised = None\<rparr>)"
proof (intro impI, elim conjE)
  assume a: "json_loads w body = Inr (Dict raw)"
    and m: "message = normalize_message (lib w) raw"
    and v: "validate_message message = Inr (True, r)"
    and k: "truthy (dget message ''image_key'' (PStr []))"
    and f: "image_fetch_fails (minio w) (dget message ''image_key'' (PStr []))"
    and t: "encode_text w (combined_text message) = Inr t"
  let ?vm = "create_output_message message (Arr t) False (utcnow w)"
  have img: "image_embedding w message = None"
    using k download_fails [OF f] by (simp add: image_embedding_def Let_def)
  have b: "build_record w message = Inr ?vm"
    using img t by (simp add: build_record_def final_embedding_def)
  have p: "process_message w body =
     (case basic_publish w ?vm of
        Inr u \<Rightarrow> \<lparr>ops = [Publish ?vm, BasicAck], raised = None\<rparr>
      | Inl e \<Rightarrow> \<lparr>ops = [BasicNack (e \<noteq> JSONDecodeError)], raised = None\<rparr>)"
    using a m v b
    by (simp add: process_message_def process_body_def publish_and_ack_def handle_def
        split: sum.splits)
  have r: "raised (process_message w body) = None"
    by (simp add: process_message_def handle_raised)
  have e: "out_embedding ?vm = Arr t \<and> \<not> out_has_image_embedding ?vm"
    by (simp add: create_output_message_def)
  show "build_record w message = Inr ?vm \<and> out_embedding ?vm = Arr t \<and>
    \<not> out_has_image_embedding ?vm \<and> raised (process_message w body) = None \<and>
    process_message w body =
     (case basic_publish w ?vm of
        Inr u \<Rightarrow> \<lparr>ops = [Publish ?vm, BasicAck], raised = None\<rparr>
      | Inl e \<Rightarrow> \<lparr>ops = [BasicNack (e \<noteq> JSONDecodeError)], raised = None\<rparr>)"
    using b p r e by blast
qed

theorem image_fetch_failure_witness:
  "truthy (dget (normalize_message no_urls wallet_photo) ''image_key'' (PStr [])) \<and>
   image_fetch_fails empty_store (dget (normalize_message no_urls wallet_photo) ''image_key'' (PStr [])) \<and>
   process_message (example_world wallet_photo empty_store [1] [1] (Inr ())) [] =
     \<lparr>ops = [Publish (create_output_message (normalize_message no_urls wallet_photo) (Arr [1]) False
               (py ''2024-12-06T12:00:00'')), BasicAck], raised = None\<rparr>"
proof -
  let ?w = "example_world wallet_photo empty_store [1] [1] (Inr ())"
  let ?m = "normalize_message no_urls wallet_photo"
  have l: "lib ?w = no_urls" "minio ?w = empty_store" "utcnow ?w = py ''2024-12-06T12:00:00''"
    by (simp_all add: example_world_def)
  have a: "json_loads ?w [] = Inr (Dict wallet_photo)"
    by (simp add: example_world_def)
  have v: "validate_message ?m = Inr (True, None)"
    by (simp add: eval_defs)
  have k: "truthy (dget ?m ''image_key'' (PStr []))"
    by (simp add: eval_defs)
  have f: "image_fetch_fails empty_store (dget ?m ''image_key'' (PStr []))"
    by (simp add: image_fetch_fails_def empty_store_def)
  have t: "encode_text ?w (combined_text ?m) = Inr [1]"
    by (simp add: example_world_def)
  have p: "basic_publish ?w (create_output_message ?m (Arr [1]) False (py ''2024-12-06T12:00:00'')) = Inr ()"
    by (simp add: example_world_def)
  show ?thesis
    using a v k f t p l
      image_fetch_failure_text_only [of ?w "[]" wallet_photo ?m None "[1]"]
    by simp
qed

section \<open>Acknowledgement\<close>

text \<open>
  C9. In \<^verbatim>\<open>main.py\<close>, a publish that raises anything but a JSON decode error
  leads to \<^verbatim>\<open>basic_nack(requeue=True)\<close> and no acknowledgement. An acknowledgement
  is sent in two cases only: after a publish that succeeded, or for a message that failed
  validation, which is acknowledged without any publish.
\<close>

theorem publish_failure_requeues:
  "(\<forall>raw r vm e.
      json_loads w body = Inr (Dict raw) \<and>
      validate_message (normalize_message (lib w) raw) = Inr (True, r) \<and>
      build_record w (normalize_message (lib w) raw) = Inr vm \<and>
      basic_publish w vm = Inl e \<and> e \<noteq> JSONDecodeError \<longrightarrow>
      process_message w body = \<lparr>ops = [BasicNack True], raised = None\<rparr>) \<and>
   (BasicAck \<in> set (ops (process_message w body)) \<longrightarrow>
      (\<exists>vm. basic_publish w vm = Inr () \<and>
            ops (process_message w body) = [Publish vm, BasicAck]) \<or>
      (\<exists>raw reason. json_loads w body = Inr (Dict raw) \<and>
            validate_message (normalize_message (lib w) raw) = Inr (False, reason) \<and>
            ops (process_message w body) = [BasicAck]))"
  by (auto simp: process_message_def process_body_def handle_def publish_and_ack_def Let_def
      split: sum.splits payload.splits if_splits prod.splits)

theorem publish_failure_witness:
  "json_loads (example_world wallet empty_store [1] [1] (Inl AMQPError)) [] = Inr (Dict wallet) \<and>
   process_message (example_world wallet empty_store [1] [1] (Inl AMQPError)) []
     = \<lparr>ops = [BasicNack True], raised = None\<rparr>"
proof -
  let ?w = "example_world wallet empty_store [1] [1] (Inl AMQPError)"
  let ?m = "normalize_message (lib ?w) wallet"
  let ?vm = "create_output_message ?m (Arr [1]) False (utcnow ?w)"
  have a: "json_loads ?w [] = Inr (Dict wallet)"
    by (simp add: example_world_def)
  have b: "validate_message ?m = Inr (True, None)"
    by (simp add: eval_defs)
  have c: "build_record ?w ?m = Inr ?vm"
    by (simp add: eval_defs)
  have d: "basic_publish ?w ?vm = Inl AMQPError"
    by (simp add: example_world_def)
  from publish_failure_requeues [of ?w "[]"]
  have "\<forall>raw r vm e.
      json_loads ?w [] = Inr (Dict raw) \<and>
      validate_message (normalize_message (lib ?w) raw) = Inr (True, r) \<and>
      build_record ?w (normalize_message (lib ?w) raw) = Inr vm \<and>
      basic_publish ?w vm = Inl e \<and> e \<noteq> JSONDecodeError \<longrightarrow>
      process_message ?w [] = \<lparr>ops = [BasicNack True], raised = None\<rparr>"
    by (rule conjunct1)
  then have "process_message ?w [] = \<lparr>ops = [BasicNack True], raised = None\<rparr>"
    using a b c d by blast
  with a show ?thesis by simp
qed

text \<open>
  The claim says a message is acknowledged only after its record is published; a message
  without text fields is acknowledged and nothing is published.
\<close>

theorem ack_without_publish_counterexample:
  "json_loads (example_world no_text empty_store [1] [1] (Inr ())) [] = Inr (Dict no_text) \<and>
   ops (process_message (example_world no_text empty_store [1] [1] (Inr ())) []) = [BasicAck]"
  by (simp add: eval_defs)

section \<open>The image key of a normalised message\<close>

text \<open>
  C10. The normaliser's output maps \<^verbatim>\<open>image_key\<close> to a string, the resolved
  key, and has no \<^verbatim>\<open>image_url\<close>.
\<close>

theorem normalize_message_image_key:
  "normalize_message l m ''image_key'' = Some (PStr (extract_image_key l m)) \<and>
   normalize_message l m ''image_url'' = None"
  by (simp add: normalize_message_def Let_def setdefault_def split: option.split)

theorem normalize_message_image_key_witness:
  "legacy_wallet ''image_url'' \<noteq> None \<and>
   normalize_message web_lib legacy_wallet ''image_key'' = Some (PStr (py ''items/wallet.jpg'')) \<and>
   normalize_message web_lib legacy_wallet ''image_url'' = None"
  using normalize_message_image_key [of web_lib legacy_wallet] ex1
  by (simp add: legacy_wallet_def)

end
